theory Spec2Isabelle
  imports Main "HOL-Library.Sublist"
begin

section \<open>Binary primitives (selprotopy/common.py)\<close>

text \<open>
  Python \<open>bytes\<close> and \<open>str\<close> values are modelled as character lists; a character
  is one byte. Python integers are unbounded and are modelled as \<open>int\<close>.
\<close>

type_synonym bytes = string

datatype error =
    ValueError string
  | AttributeError string
  | StructError
  | OverflowError
  | IndexError
  | EOFError
  | ParseError

subsection \<open>\<open>int_to_bool_list\<close>\<close>

text \<open>
  \<open>format(number, 'b')\<close> for a non-negative number: its binary digits, most significant
  first, and the single digit \<open>0\<close> for zero.
\<close>

fun bin_digits :: "nat \<Rightarrow> string" where
  "bin_digits n =
     (if n < 2 then [if n = 0 then CHR ''0'' else CHR ''1'']
      else bin_digits (n div 2) @ [if n mod 2 = 0 then CHR ''0'' else CHR ''1''])"

declare bin_digits.simps [simp del]

text \<open>Left padding with the digit zero up to a minimum width.\<close>

definition zero_fill :: "nat \<Rightarrow> string \<Rightarrow> string" where
  "zero_fill width digits = replicate (width - length digits) CHR ''0'' @ digits"

text \<open>
  \<open>format(number, '04b')\<close>: minimum width 4, zero padded; the padding is sign aware, so
  a negative number has its sign first and the sign counts towards the width.
\<close>

definition format_04b :: "int \<Rightarrow> string" where
  "format_04b number =
     (if number < 0 then CHR ''-'' # zero_fill 3 (bin_digits (nat (- number)))
      else zero_fill 4 (bin_digits (nat number)))"

definition int_to_bool_list :: "int \<Rightarrow> bool \<Rightarrow> bool \<Rightarrow> bool list" where
  "int_to_bool_list number byte_like reverse =
     (let bin_string = format_04b number;
          bin_list = map (\<lambda>x. x = CHR ''1'') (rev bin_string);
          bin_list =
            (if byte_like \<and> length bin_list mod 8 \<noteq> 0
             then (let len_needed = (length bin_list div 8 + 1) * 8;
                       apnd_list = replicate (len_needed - length bin_list) False
                   in bin_list @ apnd_list)
             else bin_list)
      in if reverse then rev bin_list else bin_list)"

text \<open>
  Recomposition of a bit sequence whose first element is the least significant bit:
  the element at index \<open>i\<close> weighs \<open>2 ^ i\<close>.
\<close>

fun bits_value :: "bool list \<Rightarrow> int" where
  "bits_value [] = 0"
| "bits_value (b # bs) = (if b then 1 else 0) + 2 * bits_value bs"

subsection \<open>\<open>ieee4bytefps\<close>\<close>

text \<open>
  \<open>struct.unpack('>f', binary_bytes)\<close> needs exactly four bytes and reads them as one
  big-endian 32-bit pattern: one sign bit, eight exponent bits, 23 fraction bits. The
  pattern is kept as a natural number below \<open>2 ^ 32\<close>.
\<close>

definition be_uint32 :: "bytes \<Rightarrow> nat" where
  "be_uint32 bs = foldl (\<lambda>acc c. acc * 256 + of_char c) 0 bs"

definition sign_bit :: "nat \<Rightarrow> bool" where
  "sign_bit w = (w div 2 ^ 31 mod 2 = 1)"

definition exponent_bits :: "nat \<Rightarrow> nat" where
  "exponent_bits w = w div 2 ^ 23 mod 256"

definition fraction_bits :: "nat \<Rightarrow> nat" where
  "fraction_bits w = w mod 2 ^ 23"

datatype single = Finite nat | Infinity bool | NaN

definition unpack_f :: "bytes \<Rightarrow> error + single" where
  "unpack_f binary_bytes =
     (if length binary_bytes \<noteq> 4 then Inl StructError
      else (let w = be_uint32 binary_bytes
            in if exponent_bits w = 255
               then (if fraction_bits w = 0 then Inr (Infinity (sign_bit w)) else Inr NaN)
               else Inr (Finite w)))"

text \<open>
  The arithmetic on finite values is that of the platform's binary floating point and
  is not interpreted here: \<open>floor_log10_abs\<close> stands for
  \<open>int(math.floor(math.log10(abs(x))))\<close> on a finite non-zero \<open>x\<close>, \<open>py_round\<close> for
  the builtin \<open>round(x, ndigits)\<close>. What is modelled is which inputs reach them.
  \<open>math.log10\<close> maps an infinity to infinity and a NaN to NaN without raising;
  \<open>math.floor\<close> then raises \<open>OverflowError\<close> on the infinity and \<open>ValueError\<close> on the
  NaN.
\<close>

record 'f float_ops =
  floor_log10_abs :: "nat \<Rightarrow> int"
  py_round :: "single \<Rightarrow> int \<Rightarrow> 'f"

definition is_zero :: "nat \<Rightarrow> bool" where
  "is_zero w = (exponent_bits w = 0 \<and> fraction_bits w = 0)"

definition magnitude :: "'f float_ops \<Rightarrow> single \<Rightarrow> error + int" where
  "magnitude ops x =
     (case x of
        Finite w \<Rightarrow> if is_zero w then Inr 0 else Inr (floor_log10_abs ops w + 1)
      | Infinity s \<Rightarrow> Inl OverflowError
      | NaN \<Rightarrow> Inl (ValueError ''cannot convert float NaN to integer''))"

definition round_total_digits :: "'f float_ops \<Rightarrow> single \<Rightarrow> int \<Rightarrow> error + 'f" where
  "round_total_digits ops x digits =
     (case magnitude ops x of
        Inl e \<Rightarrow> Inl e
      | Inr m \<Rightarrow> Inr (py_round ops x (digits - m)))"

definition ieee4bytefps :: "'f float_ops \<Rightarrow> bytes \<Rightarrow> int \<Rightarrow> error + 'f" where
  "ieee4bytefps ops binary_bytes total_digits =
     (case unpack_f binary_bytes of
        Inl e \<Rightarrow> Inl e
      | Inr x \<Rightarrow> round_total_digits ops x total_digits)"

section \<open>The polling client (selprotopy/__init__.py)\<close>

text \<open>
  The modules \<open>commands\<close> and \<open>protoparser\<close> are collaborators of the client. The
  command vocabulary is a record of byte strings, the block parsers a record of
  functions that either raise or return a structured block; both are parameters of
  every operation. Printing (\<open>verbose\<close>, \<open>debug\<close>) and the fixed delays
  (\<open>time.sleep\<close>) have no effect on the values computed and are left out.
\<close>

record commands =
  CR :: bytes
  PROMPT :: bytes
  LEVEL_0 :: bytes
  LEVEL_1 :: bytes
  LEVEL_2 :: bytes
  LEVEL_C :: bytes
  QUIT :: bytes
  GO_ACC :: bytes
  GO_2AC :: bytes
  PASS_ACC :: bytes
  PASS_2AC :: bytes
  RELAY_DEFENITION :: bytes
  DNA :: bytes
  ID :: bytes
  FM_CONFIG_BLOCK :: bytes
  FM_DEMAND_CONFIG_BLOCK :: bytes
  FM_PEAK_CONFIG_BLOCK :: bytes
  FAST_METER_REGULAR :: bytes
  FAST_METER_DEMAND :: bytes
  FAST_METER_PEAK_DEMAND :: bytes
  FO_CONFIG_BLOCK :: bytes
  FAST_MSG_CONFIG_BLOCK :: bytes

text \<open>
  The parsed blocks, with the keys the client reads. The relay definition's keys
  \<open>fopcommandinfo\<close> and \<open>fmsgcommandinfo\<close> carry the prefix \<open>def_\<close> here, since the
  client has attributes of the same names.
\<close>

record fm_command_info =
  configcommand :: bytes
  command :: bytes

record 'inf relay_definition =
  fmcommandinfo :: "fm_command_info list"
  def_fopcommandinfo :: 'inf
  def_fmsgcommandinfo :: 'inf

record id_block =
  FID :: string
  BFID :: string
  CID :: string
  DEVID :: string
  PARTNO :: string
  CONFIG :: string

record ('cfg, 'dna, 'inf, 'rd) protoparser =
  RelayDefinitionBlock :: "bytes \<Rightarrow> error + 'inf relay_definition"
  FastMeterConfigurationBlock :: "bytes \<Rightarrow> error + 'cfg"
  RelayDnaBlock :: "bytes \<Rightarrow> error + 'dna"
  RelayIdBlock :: "bytes \<Rightarrow> error + id_block"
  FastMeterBlock :: "bytes \<Rightarrow> 'cfg option \<Rightarrow> 'dna \<Rightarrow> error + 'rd"

text \<open>
  The connection: the list of byte strings written so far, oldest first, and the
  responses still to come, one element for each call of \<open>read_until\<close>. When no
  response is left the connection is closed and \<open>read_until\<close> raises \<open>EOFError\<close>, as
  \<open>telnetlib\<close> does.
\<close>

record transport =
  written :: "bytes list"
  incoming :: "bytes list"

text \<open>
  The client object. \<open>fastMeterDef = None\<close> is Python's \<open>None\<close>. The attribute
  \<open>dnaDef\<close> is not created by \<open>__init__\<close>: \<open>dnaDef = None\<close> means that the attribute
  does not exist, and reading it raises \<open>AttributeError\<close>. \<open>fopcommandinfo\<close> and
  \<open>fmsgcommandinfo\<close> hold a command (\<open>Inl\<close>) until the relay definition replaces them
  with a descriptor (\<open>Inr\<close>).
\<close>

record ('cfg, 'dna, 'inf) client =
  conn :: transport
  check :: nat
  fid :: string
  bfid :: string
  cid :: string
  devid :: string
  partno :: string
  config :: string
  fmconfigcommand1 :: bytes
  fmcommand1 :: bytes
  fmconfigcommand2 :: bytes
  fmcommand2 :: bytes
  fmconfigcommand3 :: bytes
  fmcommand3 :: bytes
  fopcommandinfo :: "bytes + 'inf"
  fmsgcommandinfo :: "bytes + 'inf"
  fastMeterDef :: "'cfg option"
  fastDemandDef :: "'cfg option"
  fastPkDemandDef :: "'cfg option"
  dnaDef :: "'dna option"

text \<open>Keyword arguments handed down to the access level methods.\<close>

record kwargs =
  level_1_pass :: "bytes option"
  level_2_pass :: "bytes option"

subsection \<open>Statements that may raise\<close>

text \<open>
  A method takes the client and returns its result, or the exception it raised,
  together with the client as it is at that moment: attributes assigned and bytes
  written before an exception stay so.
\<close>

type_synonym ('s, 'a) action = "'s \<Rightarrow> (error + 'a) \<times> 's"

definition return_c :: "'a \<Rightarrow> ('s, 'a) action" where
  "return_c x s = (Inr x, s)"

definition raise_c :: "error \<Rightarrow> ('s, 'a) action" where
  "raise_c e s = (Inl e, s)"

definition then_do :: "('s, 'a) action \<Rightarrow> ('a \<Rightarrow> ('s, 'b) action) \<Rightarrow> ('s, 'b) action" where
  "then_do m f s = (case m s of (Inl e, s') \<Rightarrow> (Inl e, s') | (Inr x, s') \<Rightarrow> f x s')"

definition call :: "error + 'a \<Rightarrow> ('s, 'a) action" where
  "call r s = (r, s)"

definition assign :: "('s \<Rightarrow> 's) \<Rightarrow> ('s, unit) action" where
  "assign upd s = (Inr (), upd s)"

text \<open>\<open>needle in haystack\<close> on byte strings; \<open>haystack.find(needle) == -1\<close> is its negation.\<close>

definition occurs_in :: "bytes \<Rightarrow> bytes \<Rightarrow> bool" where
  "occurs_in needle haystack = sublist needle haystack"

text \<open>\<open>xs[i]\<close> for a non-negative index.\<close>

definition item :: "'a list \<Rightarrow> nat \<Rightarrow> ('s, 'a) action" where
  "item xs i = (if i < length xs then return_c (xs ! i) else raise_c IndexError)"

subsection \<open>The connection\<close>

definition conn_write :: "bytes \<Rightarrow> (('cfg, 'dna, 'inf) client, unit) action" where
  "conn_write b s = (Inr (), s\<lparr>conn := (conn s)\<lparr>written := written (conn s) @ [b]\<rparr>\<rparr>)"

definition conn_read_until :: "bytes \<Rightarrow> (('cfg, 'dna, 'inf) client, bytes) action" where
  "conn_read_until expected s =
     (case incoming (conn s) of
        [] \<Rightarrow> (Inl EOFError, s)
      | r # rs \<Rightarrow> (Inr r, s\<lparr>conn := (conn s)\<lparr>incoming := rs\<rparr>\<rparr>))"

primrec verify_connection_attempts ::
  "commands \<Rightarrow> nat \<Rightarrow> (('cfg, 'dna, 'inf) client, bool) action" where
  "verify_connection_attempts cmds 0 = return_c False"
| "verify_connection_attempts cmds (Suc n) =
     then_do (conn_write (CR cmds)) (\<lambda>_.
     then_do (conn_read_until (CR cmds)) (\<lambda>response.
       if occurs_in (LEVEL_0 cmds) response then return_c True
       else verify_connection_attempts cmds n))"

definition verify_connection :: "commands \<Rightarrow> (('cfg, 'dna, 'inf) client, bool) action" where
  "verify_connection cmds s = verify_connection_attempts cmds (check s) s"

text \<open>\<open>_read_to_prompt\<close> reads to \<open>commands.PROMPT\<close> whatever \<open>prompt_str\<close> it is given.\<close>

definition read_to_prompt :: "commands \<Rightarrow> bytes \<Rightarrow> (('cfg, 'dna, 'inf) client, bytes) action" where
  "read_to_prompt cmds prompt_str = conn_read_until (PROMPT cmds)"

lemma read_to_prompt_consumes:
  "read_to_prompt cmds p s = (Inr r, s') \<Longrightarrow>
     length (incoming (conn s')) < length (incoming (conn s))"
  by (auto simp: read_to_prompt_def conn_read_until_def split: list.splits)

text \<open>
  \<open>_read_command_response\<close>: the loop reads on until the command occurs in what has
  been read. Every successful read takes one response off the connection, and a read
  on the exhausted connection raises, so the loop ends.
\<close>

function read_command_response_from ::
  "commands \<Rightarrow> bytes \<Rightarrow> bytes \<Rightarrow> (('cfg, 'dna, 'inf) client, bytes) action" where
  "read_command_response_from cmds cmd response s =
     (if \<not> occurs_in cmd response
      then (case read_to_prompt cmds (PROMPT cmds) s of
              (Inl e, s') \<Rightarrow> (Inl e, s')
            | (Inr r, s') \<Rightarrow> read_command_response_from cmds cmd (response @ r) s')
      else (Inr response, s))"
  by pat_completeness auto
termination
  by (relation "measure (\<lambda>(cmds, cmd, response, s). length (incoming (conn s)))")
     (auto dest: read_to_prompt_consumes [OF sym])

declare read_command_response_from.simps [simp del]

definition read_command_response ::
  "commands \<Rightarrow> bytes \<Rightarrow> (('cfg, 'dna, 'inf) client, bytes) action" where
  "read_command_response cmds cmd = read_command_response_from cmds cmd []"

subsection \<open>Access levels\<close>

definition access_level :: "commands \<Rightarrow> (('cfg, 'dna, 'inf) client, int \<times> string) action" where
  "access_level cmds =
     then_do (conn_write (CR cmds)) (\<lambda>_.
     then_do (read_to_prompt cmds (PROMPT cmds)) (\<lambda>resp1.
     then_do (conn_write (CR cmds)) (\<lambda>_.
     then_do (read_to_prompt cmds (PROMPT cmds)) (\<lambda>resp2.
       let resp = resp1 @ resp2
       in if occurs_in (LEVEL_C cmds) resp then return_c (3, ''CAL'')
          else if occurs_in (LEVEL_2 cmds) resp then return_c (2, ''2AC'')
          else if occurs_in (LEVEL_1 cmds) resp then return_c (1, ''ACC'')
          else return_c (0, [])))))"

definition quit :: "commands \<Rightarrow> (('cfg, 'dna, 'inf) client, unit) action" where
  "quit cmds =
     then_do (conn_write (QUIT cmds)) (\<lambda>_.
     then_do (read_to_prompt cmds (LEVEL_0 cmds)) (\<lambda>_. return_c ()))"

definition access_level_1 ::
  "commands \<Rightarrow> kwargs \<Rightarrow> (('cfg, 'dna, 'inf) client, bool) action" where
  "access_level_1 cmds kw =
     then_do (access_level cmds) (\<lambda>(level, name).
     then_do (conn_write (GO_ACC cmds)) (\<lambda>_.
     then_do (if level = 0
              then conn_write
                     ((case level_1_pass kw of None \<Rightarrow> PASS_ACC cmds | Some p \<Rightarrow> p) @ CR cmds)
              else return_c ()) (\<lambda>_.
     then_do (read_to_prompt cmds (LEVEL_0 cmds)) (\<lambda>resp.
       if occurs_in ''Invalid'' resp then return_c False else return_c True))))"

definition access_level_2 ::
  "commands \<Rightarrow> kwargs \<Rightarrow> (('cfg, 'dna, 'inf) client, bool) action" where
  "access_level_2 cmds kw =
     then_do (access_level cmds) (\<lambda>(level, name).
     then_do (if level = 0 then access_level_1 cmds kw else return_c True) (\<lambda>level_1_ok.
       if \<not> level_1_ok then return_c False
       else
         then_do (conn_write (GO_2AC cmds)) (\<lambda>_.
         then_do (if level = 0 \<or> level = 1
                  then conn_write
                         ((case level_2_pass kw of None \<Rightarrow> PASS_2AC cmds | Some p \<Rightarrow> p) @ CR cmds)
                  else return_c ()) (\<lambda>_.
         then_do (read_to_prompt cmds (LEVEL_0 cmds)) (\<lambda>resp.
           if occurs_in ''Invalid'' resp then return_c False else return_c True)))))"

subsection \<open>Auto-configuration\<close>

definition autoconfig_fastmeter ::
  "commands \<Rightarrow> ('cfg, 'dna, 'inf, 'rd) protoparser \<Rightarrow> (('cfg, 'dna, 'inf) client, unit) action" where
  "autoconfig_fastmeter cmds pp =
     then_do (\<lambda>s. conn_write (fmconfigcommand1 s @ CR cmds) s) (\<lambda>_.
     then_do (read_to_prompt cmds (PROMPT cmds)) (\<lambda>raw.
     then_do (call (FastMeterConfigurationBlock pp raw)) (\<lambda>block.
       assign (\<lambda>s. s\<lparr>fastMeterDef := Some block\<rparr>))))"

definition autoconfig_fastmeter_demand ::
  "commands \<Rightarrow> ('cfg, 'dna, 'inf, 'rd) protoparser \<Rightarrow> (('cfg, 'dna, 'inf) client, unit) action" where
  "autoconfig_fastmeter_demand cmds pp =
     then_do (\<lambda>s. conn_write (fmconfigcommand2 s @ CR cmds) s) (\<lambda>_.
     then_do (read_to_prompt cmds (PROMPT cmds)) (\<lambda>raw.
     then_do (call (FastMeterConfigurationBlock pp raw)) (\<lambda>block.
       assign (\<lambda>s. s\<lparr>fastDemandDef := Some block\<rparr>))))"

definition autoconfig_fastmeter_peakdemand ::
  "commands \<Rightarrow> ('cfg, 'dna, 'inf, 'rd) protoparser \<Rightarrow> (('cfg, 'dna, 'inf) client, unit) action" where
  "autoconfig_fastmeter_peakdemand cmds pp =
     then_do (\<lambda>s. conn_write (fmconfigcommand3 s @ CR cmds) s) (\<lambda>_.
     then_do (read_to_prompt cmds (PROMPT cmds)) (\<lambda>raw.
     then_do (call (FastMeterConfigurationBlock pp raw)) (\<lambda>block.
       assign (\<lambda>s. s\<lparr>fastPkDemandDef := Some block\<rparr>))))"

text \<open>
  The first part of \<open>autoconfig\<close>, up to the comment \<open>Request the Meter Blocks\<close>: the
  escalation from level 0, the relay definition exchange, and the eight assignments
  from the parsed block, each of which indexes the block before it assigns.
\<close>

definition autoconfig_relay_definition ::
  "commands \<Rightarrow> ('cfg, 'dna, 'inf, 'rd) protoparser \<Rightarrow> kwargs \<Rightarrow>
     (('cfg, 'dna, 'inf) client, unit) action" where
  "autoconfig_relay_definition cmds pp kw =
     then_do (access_level cmds) (\<lambda>(level, name).
     then_do (if level = 0 then then_do (access_level_1 cmds kw) (\<lambda>_. return_c ())
              else return_c ()) (\<lambda>_.
     then_do (conn_write (RELAY_DEFENITION cmds @ CR cmds)) (\<lambda>_.
     then_do (read_command_response cmds (RELAY_DEFENITION cmds)) (\<lambda>raw.
     then_do (call (RelayDefinitionBlock pp raw)) (\<lambda>definition.
     then_do (item (fmcommandinfo definition) 0) (\<lambda>info.
     then_do (assign (\<lambda>s. s\<lparr>fmconfigcommand1 := configcommand info\<rparr>)) (\<lambda>_.
     then_do (item (fmcommandinfo definition) 0) (\<lambda>info.
     then_do (assign (\<lambda>s. s\<lparr>fmcommand1 := command info\<rparr>)) (\<lambda>_.
     then_do (item (fmcommandinfo definition) 1) (\<lambda>info.
     then_do (assign (\<lambda>s. s\<lparr>fmconfigcommand2 := configcommand info\<rparr>)) (\<lambda>_.
     then_do (item (fmcommandinfo definition) 1) (\<lambda>info.
     then_do (assign (\<lambda>s. s\<lparr>fmcommand2 := command info\<rparr>)) (\<lambda>_.
     then_do (item (fmcommandinfo definition) 2) (\<lambda>info.
     then_do (assign (\<lambda>s. s\<lparr>fmconfigcommand3 := configcommand info\<rparr>)) (\<lambda>_.
     then_do (item (fmcommandinfo definition) 2) (\<lambda>info.
     then_do (assign (\<lambda>s. s\<lparr>fmcommand3 := command info\<rparr>)) (\<lambda>_.
     then_do (assign (\<lambda>s. s\<lparr>fopcommandinfo := Inr (def_fopcommandinfo definition)\<rparr>)) (\<lambda>_.
       assign (\<lambda>s. s\<lparr>fmsgcommandinfo := Inr (def_fmsgcommandinfo definition)\<rparr>)))))))))))))))))))"

text \<open>
  The last part of \<open>autoconfig\<close>, from the comment \<open>Request Relay DNA Block\<close>: the DNA
  and ID exchanges. Neither command is followed by \<open>commands.CR\<close>.
\<close>

definition autoconfig_dna_id ::
  "commands \<Rightarrow> ('cfg, 'dna, 'inf, 'rd) protoparser \<Rightarrow> (('cfg, 'dna, 'inf) client, string) action" where
  "autoconfig_dna_id cmds pp =
     then_do (conn_write (DNA cmds)) (\<lambda>_.
     then_do (read_to_prompt cmds (PROMPT cmds)) (\<lambda>raw.
     then_do (call (RelayDnaBlock pp raw)) (\<lambda>block.
     then_do (assign (\<lambda>s. s\<lparr>dnaDef := Some block\<rparr>)) (\<lambda>_.
     then_do (conn_write (ID cmds)) (\<lambda>_.
     then_do (read_to_prompt cmds (PROMPT cmds)) (\<lambda>raw.
     then_do (call (RelayIdBlock pp raw)) (\<lambda>id_block.
     then_do (assign (\<lambda>s. s\<lparr>fid := FID id_block, bfid := BFID id_block,
                               cid := CID id_block, devid := DEVID id_block,
                               partno := PARTNO id_block, config := CONFIG id_block\<rparr>)) (\<lambda>_.
       (\<lambda>s. return_c (fid s) s)))))))))"

definition autoconfig ::
  "commands \<Rightarrow> ('cfg, 'dna, 'inf, 'rd) protoparser \<Rightarrow> kwargs \<Rightarrow>
     (('cfg, 'dna, 'inf) client, string) action" where
  "autoconfig cmds pp kw =
     then_do (autoconfig_relay_definition cmds pp kw) (\<lambda>_.
     then_do (autoconfig_fastmeter cmds pp) (\<lambda>_.
     then_do (autoconfig_fastmeter_demand cmds pp) (\<lambda>_.
     then_do (autoconfig_fastmeter_peakdemand cmds pp) (\<lambda>_.
       autoconfig_dna_id cmds pp))))"

subsection \<open>Polling\<close>

text \<open>
  The arguments of \<open>protoparser.FastMeterBlock\<close> are evaluated from left to right: the
  command response is read first, then \<open>self.fastMeterDef\<close>, then \<open>self.dnaDef\<close>.
  The parser is handed the value of \<open>self.fastMeterDef\<close> as it is at that moment.
\<close>

definition poll_fast_meter ::
  "commands \<Rightarrow> ('cfg, 'dna, 'inf, 'rd) protoparser \<Rightarrow> int \<Rightarrow> kwargs \<Rightarrow>
     (('cfg, 'dna, 'inf) client, 'rd) action" where
  "poll_fast_meter cmds pp minAccLevel kw s =
     (case fastMeterDef s of
        None \<Rightarrow> raise_c (ValueError ''Client has not been auto-configured yet!'') s
      | Some _ \<Rightarrow>
          then_do (if minAccLevel = 1 then then_do (access_level_1 cmds kw) (\<lambda>_. return_c ())
                   else return_c ()) (\<lambda>_.
          then_do (if minAccLevel = 2 then then_do (access_level_2 cmds kw) (\<lambda>_. return_c ())
                   else return_c ()) (\<lambda>_.
          then_do (\<lambda>s. conn_write (fmcommand1 s @ CR cmds) s) (\<lambda>_.
          then_do (\<lambda>s. read_command_response cmds (fmcommand1 s) s) (\<lambda>raw.
          then_do (\<lambda>s. return_c (fastMeterDef s) s) (\<lambda>meter_def.
          then_do (\<lambda>s. case dnaDef s of
                          None \<Rightarrow> raise_c (AttributeError ''dnaDef'') s
                        | Some d \<Rightarrow> return_c d s) (\<lambda>dna_def.
            call (FastMeterBlock pp raw meter_def dna_def))))))) s)"

subsection \<open>Construction\<close>

text \<open>
  The attributes as \<open>__init__\<close> sets them before it talks to the relay. The defaults
  of the six fast meter commands are assigned in the order of the source.
\<close>

definition initial_client :: "commands \<Rightarrow> transport \<Rightarrow> nat \<Rightarrow> ('cfg, 'dna, 'inf) client" where
  "initial_client cmds connApi validConnChecks =
     \<lparr>conn = connApi, check = validConnChecks,
      fid = [], bfid = [], cid = [], devid = [], partno = [], config = [],
      fmconfigcommand1 = FM_CONFIG_BLOCK cmds,
      fmcommand1 = FM_DEMAND_CONFIG_BLOCK cmds,
      fmconfigcommand2 = FM_PEAK_CONFIG_BLOCK cmds,
      fmcommand2 = FAST_METER_REGULAR cmds,
      fmconfigcommand3 = FAST_METER_DEMAND cmds,
      fmcommand3 = FAST_METER_PEAK_DEMAND cmds,
      fopcommandinfo = Inl (FO_CONFIG_BLOCK cmds),
      fmsgcommandinfo = Inl (FAST_MSG_CONFIG_BLOCK cmds),
      fastMeterDef = None, fastDemandDef = None, fastPkDemandDef = None,
      dnaDef = None\<rparr>"

text \<open>
  \<open>__init__\<close>: the connection check, \<open>quit\<close>, and the auto-configuration when it is
  asked for. When it raises no client object comes into being; the second component
  is then the state the connection was left in.
\<close>

definition SelClient ::
  "commands \<Rightarrow> ('cfg, 'dna, 'inf, 'rd) protoparser \<Rightarrow> transport \<Rightarrow> bool \<Rightarrow> nat \<Rightarrow>
     (error + unit) \<times> ('cfg, 'dna, 'inf) client" where
  "SelClient cmds pp connApi autoconfig_now validConnChecks =
     then_do (verify_connection cmds) (\<lambda>connected.
       if \<not> connected then raise_c (ValueError ''Could not verify connection.'')
       else
         then_do (quit cmds) (\<lambda>_.
           if autoconfig_now
           then then_do (autoconfig cmds pp \<lparr>level_1_pass = None, level_2_pass = None\<rparr>)
                  (\<lambda>_. return_c ())
           else return_c ()))
       (initial_client cmds connApi validConnChecks)"

subsection \<open>The access levels of the specification\<close>

text \<open>
  The prompt marker of each level above 0, as the specification orders the levels:
  1 is ACC, 2 is 2AC, 3 is CAL.
\<close>

definition level_marker :: "commands \<Rightarrow> int \<Rightarrow> bytes" where
  "level_marker cmds l =
     (if l = 3 then LEVEL_C cmds else if l = 2 then LEVEL_2 cmds else LEVEL_1 cmds)"

definition level_name :: "int \<Rightarrow> string" where
  "level_name l =
     (if l = 3 then ''CAL'' else if l = 2 then ''2AC'' else if l = 1 then ''ACC'' else [])"

subsection \<open>A relay to run the client against\<close>

text \<open>
  A command vocabulary and block parsers for running the operations on concrete
  transcripts. The parsers refuse a response that contains \<open>BAD\<close> and otherwise
  keep the raw response as the block; the relay definition names the commands
  \<open>C1\<close> to \<open>C3\<close> and \<open>D1\<close> to \<open>D3\<close>.
\<close>

definition relay_commands :: commands where
  "relay_commands =
     \<lparr>CR = [CHR 0x0D, CHR 0x0A], PROMPT = ''='',
      LEVEL_0 = ''='', LEVEL_1 = ''=>'', LEVEL_2 = ''=>>'', LEVEL_C = ''==>>'',
      QUIT = ''QUI'', GO_ACC = ''ACC'', GO_2AC = ''2AC'',
      PASS_ACC = ''OTTER'', PASS_2AC = ''TAIL'',
      RELAY_DEFENITION = ''DEF'', DNA = ''DNA'', ID = ''ID'',
      FM_CONFIG_BLOCK = ''A5C1'', FM_DEMAND_CONFIG_BLOCK = ''A5C2'',
      FM_PEAK_CONFIG_BLOCK = ''A5C3'', FAST_METER_REGULAR = ''A5D1'',
      FAST_METER_DEMAND = ''A5D2'', FAST_METER_PEAK_DEMAND = ''A5D3'',
      FO_CONFIG_BLOCK = ''A5CE'', FAST_MSG_CONFIG_BLOCK = ''A546''\<rparr>"

definition refuse_bad :: "bytes \<Rightarrow> 'a \<Rightarrow> error + 'a" where
  "refuse_bad raw block = (if occurs_in ''BAD'' raw then Inl ParseError else Inr block)"

definition relay_parser ::
  "(bytes, bytes, bytes, bytes \<times> bytes option \<times> bytes) protoparser" where
  "relay_parser =
     \<lparr>RelayDefinitionBlock = (\<lambda>raw. refuse_bad raw
        \<lparr>fmcommandinfo =
           [\<lparr>configcommand = ''C1'', command = ''D1''\<rparr>,
            \<lparr>configcommand = ''C2'', command = ''D2''\<rparr>,
            \<lparr>configcommand = ''C3'', command = ''D3''\<rparr>],
         def_fopcommandinfo = ''FOP'', def_fmsgcommandinfo = ''FMSG''\<rparr>),
      FastMeterConfigurationBlock = (\<lambda>raw. refuse_bad raw raw),
      RelayDnaBlock = (\<lambda>raw. refuse_bad raw raw),
      RelayIdBlock = (\<lambda>raw. refuse_bad raw
        \<lparr>FID = raw, BFID = ''bfid'', CID = ''cid'', DEVID = ''devid'',
         PARTNO = ''partno'', CONFIG = ''config''\<rparr>),
      FastMeterBlock = (\<lambda>raw meter_def dna_def. refuse_bad raw (raw, meter_def, dna_def))\<rparr>"

definition no_kwargs :: kwargs where
  "no_kwargs = \<lparr>level_1_pass = None, level_2_pass = None\<rparr>"

subsection \<open>Clients and transcripts for concrete runs\<close>

text \<open>
  A client before its first exchange, on a connection that will deliver the given
  responses.
\<close>

definition fresh_client :: "bytes list \<Rightarrow> (bytes, bytes, bytes) client" where
  "fresh_client responses =
     initial_client relay_commands \<lparr>written = [], incoming = responses\<rparr> 5"

text \<open>A client constructed without auto-configuration.\<close>

definition unconfigured_client :: "(bytes, bytes, bytes) client" where
  "unconfigured_client =
     snd (SelClient relay_commands relay_parser \<lparr>written = [], incoming = [''='', ''='']\<rparr>
            False 5)"








subsection \<open>What an operation leaves unchanged\<close>

text \<open>
  \<open>conn_only m\<close>: the operation changes nothing of the client but its connection, and
  the only exception it raises is the closed connection's. \<open>keeps field m\<close>: the
  operation leaves the field as it was, however it ends. \<open>preserves P m\<close>: a client
  that satisfies \<open>P\<close> still does after the operation, however it ends.
\<close>

definition conn_only :: "(('cfg, 'dna, 'inf) client, 'a) action \<Rightarrow> bool" where
  "conn_only m =
     (\<forall>s r s'. m s = (r, s') \<longrightarrow>
        (\<exists>c. s' = s\<lparr>conn := c\<rparr>) \<and> (\<forall>e. r = Inl e \<longrightarrow> e = EOFError))"




subsection \<open>The stored configuration\<close>



section \<open>Properties of the binary primitives\<close>

lemma bits_value_replicate_False: "bits_value (replicate k False) = 0"
  by (induction k) auto

lemma bits_value_append_False: "bits_value (bs @ replicate k False) = bits_value bs"
  by (induction bs) (auto simp: bits_value_replicate_False)

lemma bits_value_bound: "bits_value bs < 2 ^ length bs"
  by (induction bs) auto

lemma bin_digits_small: "n < 2 \<Longrightarrow> bin_digits n = [if n = 0 then CHR ''0'' else CHR ''1'']"
  by (subst bin_digits.simps) simp

lemma bin_digits_large:
  "\<not> n < 2 \<Longrightarrow>
     bin_digits n = bin_digits (n div 2) @ [if n mod 2 = 0 then CHR ''0'' else CHR ''1'']"
  by (subst bin_digits.simps) simp

lemma bits_value_bin_digits:
  "bits_value (map (\<lambda>x. x = CHR ''1'') (rev (bin_digits n))) = int n"
proof (induction n rule: bin_digits.induct)
  case (1 n)
  show ?case
  proof (cases "n < 2")
    case True
    then have "n = 0 \<or> n = 1" by arith
    then show ?thesis using True by (auto simp: bin_digits_small)
  next
    case False
    with 1 have IH:
      "bits_value (map (\<lambda>x. x = CHR ''1'') (rev (bin_digits (n div 2)))) = int (n div 2)"
      by simp
    show ?thesis
      using IH False by (simp add: bin_digits_large zdiv_int zmod_int) presburger
  qed
qed

lemma bits_value_format_04b:
  "0 \<le> n \<Longrightarrow> bits_value (map (\<lambda>x. x = CHR ''1'') (rev (format_04b n))) = n"
  using bits_value_append_False [of "map (\<lambda>x. x = CHR ''1'') (rev (bin_digits (nat n)))"]
  by (simp add: format_04b_def zero_fill_def bits_value_bin_digits map_replicate_const)

lemma bits_value_int_to_bool_list:
  "0 \<le> n \<Longrightarrow> bits_value (int_to_bool_list n byte_like False) = n"
  by (simp add: int_to_bool_list_def Let_def bits_value_format_04b bits_value_append_False)

text \<open>
  C6. For every integer \<open>n \<ge> 0\<close>, the list \<open>int_to_bool_list n\<close> (least significant bit
  first) recomposes to \<open>n\<close>. The number 8 gives \<open>[False, False, False, True]\<close>, and with
  \<open>byte_like\<close> eight elements, the upper four of them \<open>False\<close>.
\<close>

theorem int_to_bool_list_recomposes:
  assumes "0 \<le> n"
  shows "bits_value (int_to_bool_list n False False) = n
    \<and> int_to_bool_list 8 False False = [False, False, False, True]
    \<and> int_to_bool_list 8 True False =
        [False, False, False, True, False, False, False, False]"
proof -
  have "bits_value (int_to_bool_list n False False) = n"
    using assms by (rule bits_value_int_to_bool_list)
  moreover have "int_to_bool_list 8 False False = [False, False, False, True]"
    by code_simp
  moreover have "int_to_bool_list 8 True False =
      [False, False, False, True, False, False, False, False]"
    by code_simp
  ultimately show ?thesis by simp
qed

theorem int_to_bool_list_recomposes_witness:
  "(0::int) \<le> 300
    \<and> int_to_bool_list 300 False False =
        [False, False, True, True, False, True, False, False, True]
    \<and> bits_value (int_to_bool_list 300 False False) = 300"
proof -
  have "int_to_bool_list 300 False False =
      [False, False, True, True, False, True, False, False, True]"
    by code_simp
  then show ?thesis
    using int_to_bool_list_recomposes [of 300] by simp
qed

text \<open>
  C7, as the claim states it, fails: the value 0 is formatted with a minimum width of
  four binary digits, so the result has four elements and is not a single \<open>False\<close>.
\<close>

theorem int_to_bool_list_zero_counterexample:
  "int_to_bool_list 0 False False \<noteq> [False]"
  by code_simp

text \<open>
  C7, amended. The value 0 gives four times \<open>False\<close>. A value that needs more than
  eight bits (\<open>n \<ge> 256\<close>) gives a list of more than eight elements that recomposes to
  \<open>n\<close>: no bit is cut off.
\<close>

theorem int_to_bool_list_zero_and_wide:
  "int_to_bool_list 0 False False = [False, False, False, False]
    \<and> (256 \<le> n \<longrightarrow>
          8 < length (int_to_bool_list n False False)
          \<and> bits_value (int_to_bool_list n False False) = n)"
proof -
  have zero: "int_to_bool_list 0 False False = [False, False, False, False]"
    by code_simp
  have wide: "8 < length (int_to_bool_list n False False)
      \<and> bits_value (int_to_bool_list n False False) = n" if "256 \<le> n"
  proof -
    let ?bs = "int_to_bool_list n False False"
    have recomposed: "bits_value ?bs = n"
      using that by (simp add: bits_value_int_to_bool_list)
    have "(2::int) ^ 8 \<le> n" using that by simp
    also have "n < 2 ^ length ?bs"
      using bits_value_bound [of ?bs] recomposed by simp
    finally have "(2::int) ^ 8 < 2 ^ length ?bs" .
    then have "8 < length ?bs"
      by (simp only: power_strict_increasing_iff [of "2::int"] one_less_numeral_iff
          semiring_norm)
    with recomposed show ?thesis by simp
  qed
  from zero wide show ?thesis by blast
qed

theorem int_to_bool_list_zero_and_wide_witness:
  "(256::int) \<le> 300
    \<and> length (int_to_bool_list 300 False False) = 9
    \<and> bits_value (int_to_bool_list 300 False False) = 300"
proof -
  have "length (int_to_bool_list 300 False False) = 9"
    by code_simp
  then show ?thesis
    using int_to_bool_list_zero_and_wide [of 300] by simp
qed

text \<open>
  C9. A byte string whose length is not four is refused by \<open>struct.unpack\<close>. Not every
  four-byte string yields a float, though: the four bytes \<open>7F 80 00 00\<close> are positive
  infinity, whose magnitude cannot be computed (\<open>OverflowError\<close>), and \<open>7F C0 00 00\<close>
  is a NaN (\<open>ValueError\<close>); both hold whatever the floating point arithmetic on finite
  values is.
\<close>

theorem ieee4bytefps_raises_on_infinity:
  "ieee4bytefps ops [CHR 0x7F, CHR 0x80, CHR 0x00, CHR 0x00] 7 = Inl OverflowError
    \<and> ieee4bytefps ops [CHR 0x7F, CHR 0xC0, CHR 0x00, CHR 0x00] 7 =
        Inl (ValueError ''cannot convert float NaN to integer'')
    \<and> ieee4bytefps ops [CHR 0x3F, CHR 0x80, CHR 0x00] 7 = Inl StructError"
  by (simp add: ieee4bytefps_def unpack_f_def be_uint32_def exponent_bits_def
      fraction_bits_def sign_bit_def round_total_digits_def magnitude_def)

section \<open>Properties of the client\<close>

subsection \<open>Sequencing\<close>

lemma then_do_conn_write:
  "then_do (conn_write b) f s =
     f () (s\<lparr>conn := (conn s)\<lparr>written := written (conn s) @ [b]\<rparr>\<rparr>)"
  by (simp add: then_do_def conn_write_def)

lemma then_do_read_Cons:
  "incoming (conn s) = r # rs \<Longrightarrow>
     then_do (read_to_prompt cmds p) f s = f r (s\<lparr>conn := (conn s)\<lparr>incoming := rs\<rparr>\<rparr>)"
  by (simp add: then_do_def read_to_prompt_def conn_read_until_def)


subsection \<open>Operations that touch only the connection\<close>

lemma conn_onlyD:
  "conn_only m \<Longrightarrow> m s = (r, s') \<Longrightarrow>
     (\<exists>c. s' = s\<lparr>conn := c\<rparr>) \<and> (\<forall>e. r = Inl e \<longrightarrow> e = EOFError)"
  by (simp add: conn_only_def)



lemma conn_only_return: "conn_only (return_c x)"
  by (simp add: conn_only_def return_c_def) (metis client.update_convs(1) client.surjective)

lemma conn_only_conn_write: "conn_only (conn_write b)"
  by (auto simp: conn_only_def conn_write_def)


lemma conn_only_read_to_prompt: "conn_only (read_to_prompt cmds p)"
  by (auto simp: conn_only_def read_to_prompt_def conn_read_until_def split: list.splits)
     (metis client.update_convs(1) client.surjective)

lemma conn_only_then_do:
  assumes "conn_only m" and "\<And>x. conn_only (f x)"
  shows "conn_only (then_do m f)"
  unfolding conn_only_def
proof (intro allI impI)
  fix s r s'
  assume run: "then_do m f s = (r, s')"
  obtain r1 s1 where m: "m s = (r1, s1)" by (cases "m s")
  from conn_onlyD [OF assms(1) m] obtain c1 where
    s1: "s1 = s\<lparr>conn := c1\<rparr>" and e1: "\<forall>e. r1 = Inl e \<longrightarrow> e = EOFError" by blast
  show "(\<exists>c. s' = s\<lparr>conn := c\<rparr>) \<and> (\<forall>e. r = Inl e \<longrightarrow> e = EOFError)"
  proof (cases r1)
    case (Inl e)
    with run m have "r = Inl e" "s' = s1" by (simp_all add: then_do_def)
    with s1 e1 Inl show ?thesis by blast
  next
    case (Inr x)
    with run m have "f x s1 = (r, s')" by (simp add: then_do_def)
    from conn_onlyD [OF assms(2) this] obtain c2 where
      "s' = s1\<lparr>conn := c2\<rparr>" and e2: "\<forall>e. r = Inl e \<longrightarrow> e = EOFError" by blast
    with s1 have "s' = s\<lparr>conn := c2\<rparr>" by simp
    with e2 show ?thesis by blast
  qed
qed









lemma conn_only_quit: "conn_only (quit cmds)"
  unfolding quit_def
  by (intro conn_only_then_do conn_only_conn_write conn_only_read_to_prompt conn_only_return)














subsection \<open>The access level query and the escalation to ACC\<close>

lemma access_level_two_reads:
  assumes "incoming (conn s) = r1 # r2 # rest"
  shows "access_level cmds s =
    (Inr (if occurs_in (LEVEL_C cmds) (r1 @ r2) then (3, ''CAL'')
          else if occurs_in (LEVEL_2 cmds) (r1 @ r2) then (2, ''2AC'')
          else if occurs_in (LEVEL_1 cmds) (r1 @ r2) then (1, ''ACC'')
          else (0, [])),
     s\<lparr>conn := \<lparr>written = written (conn s) @ [CR cmds, CR cmds], incoming = rest\<rparr>\<rparr>)"
  using assms
  by (simp add: access_level_def then_do_conn_write then_do_read_Cons Let_def return_c_def)

text \<open>
  C4. When the connection answers the two probes with \<open>r1\<close> and \<open>r2\<close>, \<open>access_level\<close>
  returns the highest level whose prompt marker occurs in \<open>r1 @ r2\<close>, a lower marker
  occurring as well or not, with that level's name; it returns level 0 with the empty name when
  no marker occurs. It writes the two probes and nothing else.
\<close>

theorem access_level_highest_marker:
  assumes "incoming (conn s) = r1 # r2 # rest"
  shows "\<exists>lvl name s'.
      access_level cmds s = (Inr (lvl, name), s')
    \<and> lvl \<in> {0, 1, 2, 3}
    \<and> (lvl \<noteq> 0 \<longrightarrow> occurs_in (level_marker cmds lvl) (r1 @ r2))
    \<and> (\<forall>l \<in> {1, 2, 3}. occurs_in (level_marker cmds l) (r1 @ r2) \<longrightarrow> l \<le> lvl)
    \<and> ((\<forall>l \<in> {1, 2, 3}. \<not> occurs_in (level_marker cmds l) (r1 @ r2)) \<longrightarrow>
          (lvl, name) = (0, []))
    \<and> name = level_name lvl
    \<and> written (conn s') = written (conn s) @ [CR cmds, CR cmds]"
  by (simp add: access_level_two_reads [OF assms] level_marker_def level_name_def)

theorem access_level_highest_marker_witness:
  "incoming (conn (fresh_client [''=>'', ''=>>''])) = [''=>'', ''=>>'']
    \<and> occurs_in (level_marker relay_commands 1) (''=>'' @ ''=>>'')
    \<and> occurs_in (level_marker relay_commands 2) (''=>'' @ ''=>>'')
    \<and> \<not> occurs_in (level_marker relay_commands 3) (''=>'' @ ''=>>'')
    \<and> fst (access_level relay_commands (fresh_client [''=>'', ''=>>''])) = Inr (2, ''2AC'')
    \<and> fst (access_level relay_commands (fresh_client [''='', ''=''])) = Inr (0, [])"
proof -
  have two: "incoming (conn (fresh_client [''=>'', ''=>>''])) = [''=>'', ''=>>'']"
    by (simp add: fresh_client_def initial_client_def)
  have m1: "occurs_in (level_marker relay_commands 1) (''=>'' @ ''=>>'')" by code_simp
  have m2: "occurs_in (level_marker relay_commands 2) (''=>'' @ ''=>>'')" by code_simp
  have m3: "\<not> occurs_in (level_marker relay_commands 3) (''=>'' @ ''=>>'')" by code_simp
  have none: "fst (access_level relay_commands (fresh_client [''='', ''=''])) = Inr (0, [])"
    by code_simp
  from access_level_highest_marker [OF two, of relay_commands] m1 m2 m3
  have "fst (access_level relay_commands (fresh_client [''=>'', ''=>>''])) = Inr (2, ''2AC'')"
    by (auto simp: level_name_def)
  with two m1 m2 m3 none show ?thesis by blast
qed

text \<open>
  C5. When the connection answers the two probes and the escalation, \<open>access_level_1\<close>
  returns \<open>False\<close> if the last answer contains \<open>Invalid\<close> and \<open>True\<close> otherwise. It
  writes the two probes and the command; the password, followed by the line
  terminator, is written after them, once, exactly when the level found by the probes
  is 0.
\<close>

theorem access_level_1_password:
  assumes "incoming (conn s) = r1 # r2 # r3 # rest"
  shows "\<exists>s'.
      access_level_1 cmds kw s = (Inr (\<not> occurs_in ''Invalid'' r3), s')
    \<and> written (conn s') =
        written (conn s) @ [CR cmds, CR cmds, GO_ACC cmds] @
        (if fst (access_level cmds s) = Inr (0, [])
         then [(case level_1_pass kw of None \<Rightarrow> PASS_ACC cmds | Some p \<Rightarrow> p) @ CR cmds]
         else [])"
proof -
  note al = access_level_two_reads [OF assms, of cmds]
  show ?thesis
    by (simp add: access_level_1_def then_do_def al conn_write_def read_to_prompt_def
        conn_read_until_def return_c_def)
qed

theorem access_level_1_password_witness:
  "incoming (conn (fresh_client [''='', ''='', ''ok=''])) = [''='', ''='', ''ok='']
    \<and> access_level_1 relay_commands no_kwargs (fresh_client [''='', ''='', ''ok='']) =
        (Inr True,
         (fresh_client [])\<lparr>conn := \<lparr>written =
            [CR relay_commands, CR relay_commands, ''ACC'', ''OTTER'' @ CR relay_commands],
            incoming = []\<rparr>\<rparr>)
    \<and> fst (access_level_1 relay_commands no_kwargs
             (fresh_client [''='', ''='', ''Invalid Password ='']))
        = Inr False
    \<and> written (conn (snd (access_level_1 relay_commands no_kwargs
             (fresh_client [''=>'', ''=>'', ''ok='']))))
        = [CR relay_commands, CR relay_commands, ''ACC'']"
proof -
  have three: "incoming (conn (fresh_client [''='', ''='', ''ok=''])) = [''='', ''='', ''ok='']"
    by (simp add: fresh_client_def initial_client_def)
  have run: "access_level_1 relay_commands no_kwargs (fresh_client [''='', ''='', ''ok='']) =
        (Inr True,
         (fresh_client [])\<lparr>conn := \<lparr>written =
            [CR relay_commands, CR relay_commands, ''ACC'', ''OTTER'' @ CR relay_commands],
            incoming = []\<rparr>\<rparr>)"
    by code_simp
  have refused: "fst (access_level_1 relay_commands no_kwargs
             (fresh_client [''='', ''='', ''Invalid Password ='']))
        = Inr False"
    by code_simp
  have elevated: "written (conn (snd (access_level_1 relay_commands no_kwargs
             (fresh_client [''=>'', ''=>'', ''ok='']))))
        = [CR relay_commands, CR relay_commands, ''ACC'']"
    by code_simp
  from access_level_1_password [OF three, of relay_commands no_kwargs] three run refused elevated
  show ?thesis by blast
qed

subsection \<open>Auto-configuration\<close>






























subsection \<open>Polling\<close>

text \<open>
  C3. On a client whose regular fast meter configuration is \<open>None\<close>, as it is when no
  configuration step has run, \<open>poll_fast_meter\<close> raises the \<open>ValueError\<close> of its guard
  and leaves the client, and so the list of bytes written, as it was.
\<close>

theorem poll_fast_meter_not_configured:
  assumes "fastMeterDef s = None"
  shows "poll_fast_meter cmds pp minAccLevel kw s =
      (Inl (ValueError ''Client has not been auto-configured yet!''), s)
    \<and> written (conn (snd (poll_fast_meter cmds pp minAccLevel kw s))) = written (conn s)"
  using assms by (simp add: poll_fast_meter_def raise_c_def)

theorem poll_fast_meter_not_configured_witness:
  "fst (SelClient relay_commands relay_parser \<lparr>written = [], incoming = [''='', ''='']\<rparr>
          False 5) = Inr ()
    \<and> fastMeterDef unconfigured_client = None
    \<and> poll_fast_meter relay_commands relay_parser 0 no_kwargs unconfigured_client =
        (Inl (ValueError ''Client has not been auto-configured yet!''), unconfigured_client)"
proof -
  have made: "fst (SelClient relay_commands relay_parser
      \<lparr>written = [], incoming = [''='', ''='']\<rparr> False 5) = Inr ()"
    by code_simp
  have unset: "fastMeterDef unconfigured_client = None"
    by code_simp
  from poll_fast_meter_not_configured [OF unset] made unset show ?thesis
    by blast
qed




end
